theory Spec2Isabelle
  imports Complex_Main "HOL-Library.Sublist"
begin

chapter \<open>que: secret redaction and advisory classification\<close>

text \<open>
  A shallow embedding of the redaction engine (\<^verbatim>\<open>internal/sanitizer/sanitizer.go\<close>),
  of the reply extractor, classifier and conversation loop
  (\<^verbatim>\<open>internal/advisor/advisor.go\<close>) and of the evidence decoder
  (\<^verbatim>\<open>EvidenceString.UnmarshalJSON\<close> of package \<^verbatim>\<open>config\<close>).

  A Go \<^verbatim>\<open>string\<close> is a sequence of bytes and is modelled as a \<^typ>\<open>string\<close>, one
  \<^typ>\<open>char\<close> per byte.
\<close>

section \<open>The functions of package \<^verbatim>\<open>strings\<close> that the code calls\<close>

abbreviation (input) nl :: char where
  "nl \<equiv> CHR 0x0A"

text \<open>\<^verbatim>\<open>strings.Contains(s, substr)\<close>: \<^verbatim>\<open>substr\<close> occurs in \<^verbatim>\<open>s\<close> as a contiguous run of bytes.\<close>

definition strings_Contains :: "string \<Rightarrow> string \<Rightarrow> bool" where
  "strings_Contains s substr \<longleftrightarrow> sublist substr s"

text \<open>
  \<^verbatim>\<open>strings.Count(s, substr)\<close> and \<^verbatim>\<open>strings.ReplaceAll(s, old, new)\<close> for a non-empty
  pattern: the occurrences are found from left to right and do not overlap. For the empty
  pattern Go works on rune boundaries; that case is not modelled (the equations below then
  count nothing and replace nothing), and the redaction engine never reaches it, since it
  skips every empty secret (lines 130 to 132; lemma \<open>collect_keys\<close>).
\<close>

function strings_Count :: "string \<Rightarrow> string \<Rightarrow> nat" where
  "strings_Count [] substr = 0"
| "strings_Count (c # cs) substr =
     (if substr \<noteq> [] \<and> prefix substr (c # cs)
      then Suc (strings_Count (drop (length substr) (c # cs)) substr)
      else strings_Count cs substr)"
  by pat_completeness auto
termination
  by (relation "measure (\<lambda>(s, substr). length s)") auto

function strings_ReplaceAll :: "string \<Rightarrow> string \<Rightarrow> string \<Rightarrow> string" where
  "strings_ReplaceAll [] old new = []"
| "strings_ReplaceAll (c # cs) old new =
     (if old \<noteq> [] \<and> prefix old (c # cs)
      then new @ strings_ReplaceAll (drop (length old) (c # cs)) old new
      else c # strings_ReplaceAll cs old new)"
  by pat_completeness auto
termination
  by (relation "measure (\<lambda>(s, old, new). length s)") auto

text \<open>
  \<^verbatim>\<open>strings.ToLower(s)\<close>. When every byte of \<^verbatim>\<open>s\<close> is below \<^verbatim>\<open>utf8.RuneSelf\<close>, that
  is \<^verbatim>\<open>0x80\<close>, the function lowers the bytes \<^verbatim>\<open>A\<close> to \<^verbatim>\<open>Z\<close> and keeps every other
  byte. Otherwise it returns \<^verbatim>\<open>Map(unicode.ToLower, s)\<close>, which decodes \<^verbatim>\<open>s\<close> rune by
  rune, maps each rune through the Unicode case tables of the Go release (so that U+212A
  becomes \<^verbatim>\<open>k\<close>) and writes U+FFFD for a byte that is not valid UTF-8. Those tables are
  not part of the repository: the result of that call is the parameter
  \<open>Map_unicode_ToLower\<close> of the model, and what is proved below holds for every such
  function unless a hypothesis about it is stated.
\<close>

definition lower_byte :: "char \<Rightarrow> char" where
  "lower_byte c =
     (case map_of (zip ''ABCDEFGHIJKLMNOPQRSTUVWXYZ'' ''abcdefghijklmnopqrstuvwxyz'') c of
        Some d \<Rightarrow> d
      | None \<Rightarrow> c)"

definition isASCII :: "string \<Rightarrow> bool" where
  "isASCII s = list_all (\<lambda>c. of_char c < (0x80 :: nat)) s"

definition strings_ToLower :: "(string \<Rightarrow> string) \<Rightarrow> string \<Rightarrow> string" where
  "strings_ToLower Map_unicode_ToLower s =
     (if isASCII s then map lower_byte s else Map_unicode_ToLower s)"

text \<open>
  \<^verbatim>\<open>strings.TrimSpace\<close> removes the leading and the trailing runes that
  \<^verbatim>\<open>unicode.IsSpace\<close> accepts. On bytes these are the UTF-8 encodings of
  U+0009 to U+000D, U+0020, U+0085, U+00A0, U+1680, U+2000 to U+200A, U+2028, U+2029,
  U+202F, U+205F and U+3000; a byte that does not start such an encoding (also an invalid
  one, which Go decodes as U+FFFD) stops the trimming.
\<close>

definition unicode_spaces :: "string list" where
  "unicode_spaces =
     [[CHR 0x09], [CHR 0x0A], [CHR 0x0B], [CHR 0x0C], [CHR 0x0D], [CHR 0x20],
      [CHR 0xC2, CHR 0x85], [CHR 0xC2, CHR 0xA0],
      [CHR 0xE1, CHR 0x9A, CHR 0x80],
      [CHR 0xE2, CHR 0x80, CHR 0x80], [CHR 0xE2, CHR 0x80, CHR 0x81],
      [CHR 0xE2, CHR 0x80, CHR 0x82], [CHR 0xE2, CHR 0x80, CHR 0x83],
      [CHR 0xE2, CHR 0x80, CHR 0x84], [CHR 0xE2, CHR 0x80, CHR 0x85],
      [CHR 0xE2, CHR 0x80, CHR 0x86], [CHR 0xE2, CHR 0x80, CHR 0x87],
      [CHR 0xE2, CHR 0x80, CHR 0x88], [CHR 0xE2, CHR 0x80, CHR 0x89],
      [CHR 0xE2, CHR 0x80, CHR 0x8A],
      [CHR 0xE2, CHR 0x80, CHR 0xA8], [CHR 0xE2, CHR 0x80, CHR 0xA9],
      [CHR 0xE2, CHR 0x80, CHR 0xAF], [CHR 0xE2, CHR 0x81, CHR 0x9F],
      [CHR 0xE3, CHR 0x80, CHR 0x80]]"

fun strip_prefixes :: "string list \<Rightarrow> string \<Rightarrow> string" where
  "strip_prefixes ws [] = []"
| "strip_prefixes ws (c # cs) =
     (case find (\<lambda>w. w \<noteq> [] \<and> prefix w (c # cs)) ws of
        None \<Rightarrow> c # cs
      | Some w \<Rightarrow> strip_prefixes ws (drop (length w - 1) cs))"

definition strings_TrimSpace :: "string \<Rightarrow> string" where
  "strings_TrimSpace s =
     rev (strip_prefixes (map rev unicode_spaces) (rev (strip_prefixes unicode_spaces s)))"

text \<open>
  \<^verbatim>\<open>strings.Split(s, sep)\<close> and \<^verbatim>\<open>strings.Join(elems, sep)\<close>. Every call of
  \<^verbatim>\<open>Split\<close> in the code has the one-byte separator \<^verbatim>\<open>"\n"\<close>, so the separator of
  the model is a byte.
\<close>

fun strings_Split :: "string \<Rightarrow> char \<Rightarrow> string list" where
  "strings_Split [] sep = [[]]"
| "strings_Split (c # cs) sep =
     (if c = sep then [] # strings_Split cs sep
      else (case strings_Split cs sep of
              [] \<Rightarrow> [[c]]
            | piece # pieces \<Rightarrow> (c # piece) # pieces))"

fun strings_Join :: "string list \<Rightarrow> string \<Rightarrow> string" where
  "strings_Join [] sep = []"
| "strings_Join [e] sep = e"
| "strings_Join (e # es) sep = e @ sep @ strings_Join es sep"

section \<open>Package \<^verbatim>\<open>sanitizer\<close>\<close>

text \<open>
  The fields of gitleaks' \<^verbatim>\<open>report.Finding\<close> that the engine reads, and
  \<^verbatim>\<open>config.FindingDetail\<close>. The entropy is a \<^verbatim>\<open>float32\<close> that is only copied.
\<close>

record Finding =
  RuleID :: string
  Description :: string
  Match :: string
  Secret :: string
  StartLine :: int
  EndLine :: int
  StartColumn :: int
  EndColumn :: int
  Entropy :: real
  File :: string
  Tags :: "string list"
  Fingerprint :: string

record FindingDetail =
  RuleID :: string
  Description :: string
  Match :: string
  Secret :: string
  Source :: string
  StartLine :: int
  EndLine :: int
  StartColumn :: int
  EndColumn :: int
  Entropy :: real
  File :: string
  Tags :: "string list"
  Fingerprint :: string

text \<open>\<^verbatim>\<open>mock_detector.go\<close>: a detector that returns its stored findings for every content.\<close>

definition MockFinding :: "string \<Rightarrow> string \<Rightarrow> string \<Rightarrow> string \<Rightarrow> Finding" where
  "MockFinding ruleID description match secret =
     \<lparr>Finding.RuleID = ruleID, Finding.Description = description,
      Finding.Match = match, Finding.Secret = secret,
      Finding.StartLine = 1, Finding.EndLine = 1,
      Finding.StartColumn = 0, Finding.EndColumn = int (length match),
      Finding.Entropy = 4.5, Finding.File = [], Finding.Tags = [''test''],
      Finding.Fingerprint = []\<rparr>"

definition MockDetector_DetectString :: "Finding list \<Rightarrow> string \<Rightarrow> Finding list" where
  "MockDetector_DetectString findings content = findings"

text \<open>\<^verbatim>\<open>getRedactionPlaceholder\<close> (sanitizer.go, lines 177 to 223).\<close>

definition getRedactionPlaceholder ::
  "(string \<Rightarrow> string) \<Rightarrow> string \<Rightarrow> string \<Rightarrow> string" where
  "getRedactionPlaceholder Map_unicode_ToLower ruleID description =
     (let ruleIDLower = strings_ToLower Map_unicode_ToLower ruleID;
          descLower = strings_ToLower Map_unicode_ToLower description
      in if strings_Contains ruleIDLower ''aws'' then
           (if strings_Contains ruleIDLower ''access'' \<or> strings_Contains descLower ''access key''
            then ''<REDACTED_AWS_ACCESS_KEY>''
            else if strings_Contains ruleIDLower ''secret'' \<or> strings_Contains descLower ''secret''
            then ''<REDACTED_AWS_SECRET_KEY>''
            else ''<REDACTED_AWS_CREDENTIAL>'')
         else if strings_Contains ruleIDLower ''github'' \<or> strings_Contains descLower ''github''
         then ''<REDACTED_GITHUB_TOKEN>''
         else if strings_Contains ruleIDLower ''private'' \<or> strings_Contains descLower ''private key''
         then ''<REDACTED_PRIVATE_KEY>''
         else if strings_Contains ruleIDLower ''api'' \<or> strings_Contains descLower ''api key''
         then ''<REDACTED_API_KEY>''
         else if strings_Contains ruleIDLower ''bearer'' \<or> strings_Contains descLower ''bearer''
         then ''<REDACTED_BEARER_TOKEN>''
         else if strings_Contains ruleIDLower ''token'' \<or> strings_Contains descLower ''token''
         then ''<REDACTED_TOKEN>''
         else if strings_Contains ruleIDLower ''password'' \<or> strings_Contains descLower ''password''
         then ''<REDACTED_PASSWORD>''
         else if strings_Contains ruleIDLower ''db-connection''
                 \<or> strings_Contains descLower ''database connection''
         then ''<REDACTED_DB_CONNECTION_STRING>''
         else ''<REDACTED_SECRET>'')"

text \<open>
  \<^verbatim>\<open>RedactWithDetails\<close> (lines 102 to 174). The secret that stands for a finding is its
  \<^verbatim>\<open>Match\<close>, or its \<^verbatim>\<open>Secret\<close> when the match is empty (lines 124 to 128).
\<close>

definition finding_secret :: "Finding \<Rightarrow> string" where
  "finding_secret finding =
     (if Finding.Match finding = [] then Finding.Secret finding else Finding.Match finding)"

definition finding_detail :: "Finding \<Rightarrow> FindingDetail" where
  "finding_detail finding =
     \<lparr>RuleID = Finding.RuleID finding, Description = Finding.Description finding,
      Match = Finding.Match finding, Secret = Finding.Secret finding,
      Source = ''gitleaks'',
      StartLine = Finding.StartLine finding, EndLine = Finding.EndLine finding,
      StartColumn = Finding.StartColumn finding, EndColumn = Finding.EndColumn finding,
      Entropy = Finding.Entropy finding, File = Finding.File finding,
      Tags = Finding.Tags finding, Fingerprint = Finding.Fingerprint finding\<rparr>"

text \<open>
  The first loop (lines 122 to 158) walks the findings in the detector's order. It carries
  the details and the map \<^verbatim>\<open>uniqueSecrets\<close>, kept here as a list of (secret, placeholder)
  entries with one entry per key, in the order of insertion.
\<close>

fun collect ::
  "(string \<Rightarrow> string) \<Rightarrow> bool \<Rightarrow> Finding list
     \<Rightarrow> FindingDetail list \<times> (string \<times> string) list
     \<Rightarrow> FindingDetail list \<times> (string \<times> string) list" where
  "collect Map_unicode_ToLower verbose [] (details, uniqueSecrets) = (details, uniqueSecrets)"
| "collect Map_unicode_ToLower verbose (finding # findings) (details, uniqueSecrets) =
     (let secret = finding_secret finding
      in if secret = []
         then collect Map_unicode_ToLower verbose findings (details, uniqueSecrets)
         else
           let details' = (if verbose then details @ [finding_detail finding] else details);
               uniqueSecrets' =
                 (if map_of uniqueSecrets secret = None
                  then uniqueSecrets @
                         [(secret, getRedactionPlaceholder Map_unicode_ToLower
                                     (Finding.RuleID finding) (Finding.Description finding))]
                  else uniqueSecrets)
           in collect Map_unicode_ToLower verbose findings (details', uniqueSecrets'))"

text \<open>
  The second loop (lines 161 to 170) ranges over the map. Its state is the text, the total
  and the set \<^verbatim>\<open>redacted\<close>.
\<close>

fun redact_entries ::
  "(string \<times> string) list \<Rightarrow> string \<times> nat \<times> string set \<Rightarrow> string \<times> nat \<times> string set" where
  "redact_entries [] (result, totalRedactions, redacted) = (result, totalRedactions, redacted)"
| "redact_entries ((secret, placeholder) # entries) (result, totalRedactions, redacted) =
     (if secret \<notin> redacted then
        (let count = strings_Count result secret
         in if count > 0
            then redact_entries entries
                   (strings_ReplaceAll result secret placeholder,
                    totalRedactions + count, insert secret redacted)
            else redact_entries entries (result, totalRedactions, redacted))
      else redact_entries entries (result, totalRedactions, redacted))"

text \<open>
  Go visits the entries of a map in an order that the language leaves open. The order that
  the run takes is the parameter \<open>range_order\<close>, a function that rearranges the entries;
  the results below hold for each such order. The detector is the parameter
  \<open>DetectString\<close>.
\<close>

definition RedactWithDetails ::
  "(string \<Rightarrow> string) \<Rightarrow> (string \<Rightarrow> Finding list)
     \<Rightarrow> ((string \<times> string) list \<Rightarrow> (string \<times> string) list)
     \<Rightarrow> string \<Rightarrow> bool \<Rightarrow> string \<times> nat \<times> FindingDetail list" where
  "RedactWithDetails Map_unicode_ToLower DetectString range_order input verbose =
     (if input = [] then (input, 0, [])
      else
        let findings = DetectString input
        in if length findings > 0 then
             (let (details, uniqueSecrets) =
                     collect Map_unicode_ToLower verbose findings ([], []);
                  (result, totalRedactions, redacted) =
                     redact_entries (range_order uniqueSecrets) (input, 0, {})
              in (result, totalRedactions, details))
           else (input, 0, []))"

definition Redact ::
  "(string \<Rightarrow> string) \<Rightarrow> (string \<Rightarrow> Finding list)
     \<Rightarrow> ((string \<times> string) list \<Rightarrow> (string \<times> string) list)
     \<Rightarrow> string \<Rightarrow> string \<times> nat" where
  "Redact Map_unicode_ToLower DetectString range_order input =
     (case RedactWithDetails Map_unicode_ToLower DetectString range_order input False of
        (result, count, details) \<Rightarrow> (result, count))"

section \<open>Package \<^verbatim>\<open>config\<close>: the reply of the model\<close>

record LLMResponse =
  Status :: string
  RootCause :: string
  Evidence :: string
  Fix :: string

text \<open>
  \<^verbatim>\<open>EvidenceString.UnmarshalJSON\<close>. The method receives the bytes of one JSON value,
  which \<^verbatim>\<open>encoding/json\<close> has already checked; the model receives that value. A JSON
  string carries its decoded text.
\<close>

datatype json =
  JNull
| JBool bool
| JNumber string
| JString string
| JArray "json list"
| JObject "(string \<times> json) list"

datatype unmarshal_error = UnmarshalTypeError string string

fun json_kind :: "json \<Rightarrow> string" where
  "json_kind JNull = ''null''"
| "json_kind (JBool b) = ''bool''"
| "json_kind (JNumber n) = ''number''"
| "json_kind (JString s) = ''string''"
| "json_kind (JArray vs) = ''array''"
| "json_kind (JObject kvs) = ''object''"

text \<open>
  \<^verbatim>\<open>json.Unmarshal(data, &str)\<close> for a \<^verbatim>\<open>string\<close> variable that holds \<open>cur\<close>: a JSON
  string is stored, \<^verbatim>\<open>null\<close> leaves the variable as it is, every other value is a type
  error.
\<close>

fun unmarshal_string :: "json \<Rightarrow> string \<Rightarrow> unmarshal_error + string" where
  "unmarshal_string (JString s) cur = Inr s"
| "unmarshal_string JNull cur = Inr cur"
| "unmarshal_string v cur = Inl (UnmarshalTypeError (json_kind v) ''string'')"

text \<open>
  \<^verbatim>\<open>json.Unmarshal(data, &arr)\<close> for a nil \<^verbatim>\<open>[]string\<close>: an array is decoded element by
  element (a \<^verbatim>\<open>null\<close> element stays the empty string); the decoder goes on after an
  element of another type and reports the first such error at the end.
\<close>

fun first_error :: "(unmarshal_error + string) list \<Rightarrow> unmarshal_error option" where
  "first_error [] = None"
| "first_error (Inl e # rs) = Some e"
| "first_error (Inr s # rs) = first_error rs"

fun unmarshal_string_slice :: "json \<Rightarrow> unmarshal_error + string list" where
  "unmarshal_string_slice (JArray vs) =
     (let rs = map (\<lambda>v. unmarshal_string v []) vs
      in case first_error rs of
           Some e \<Rightarrow> Inl e
         | None \<Rightarrow> Inr (map (\<lambda>r. case r of Inr s \<Rightarrow> s | Inl e \<Rightarrow> []) rs))"
| "unmarshal_string_slice JNull = Inr []"
| "unmarshal_string_slice v = Inl (UnmarshalTypeError (json_kind v) ''[]string'')"

text \<open>The receiver holds \<open>e\<close> when the method is called; the result is its new value.\<close>

definition EvidenceString_UnmarshalJSON :: "string \<Rightarrow> json \<Rightarrow> unmarshal_error + string" where
  "EvidenceString_UnmarshalJSON e data =
     (case unmarshal_string data [] of
        Inr str \<Rightarrow> Inr str
      | Inl err1 \<Rightarrow>
          (case unmarshal_string_slice data of
             Inr arr \<Rightarrow> Inr (strings_Join arr [nl])
           | Inl err2 \<Rightarrow> unmarshal_string data e))"

section \<open>Package \<^verbatim>\<open>advisor\<close>\<close>

subsection \<open>\<^verbatim>\<open>extractJSON\<close> (advisor.go, lines 87 to 102)\<close>

text \<open>
  Go's \<^verbatim>\<open>regexp\<close> returns the match that a backtracking search finds first: the
  leftmost start, and there a greedy operator tries the longer alternative first and a
  lazy one the shorter. Both patterns have the flag \<^verbatim>\<open>s\<close>, so the dot matches every byte.
  The class \<^verbatim>\<open>\s\<close> is tab, newline, form feed, carriage return and space.
\<close>

definition re_space :: "char \<Rightarrow> bool" where
  "re_space c \<longleftrightarrow> c \<in> {CHR 0x09, CHR 0x0A, CHR 0x0C, CHR 0x0D, CHR 0x20}"

text \<open>\<^verbatim>\<open>(.*?)\n```\<close>: the shortest group that a newline and a fence follow.\<close>

fun match_body :: "string \<Rightarrow> string option" where
  "match_body [] = None"
| "match_body (c # cs) =
     (if prefix (nl # ''```'') (c # cs) then Some []
      else map_option ((#) c) (match_body cs))"

text \<open>
  \<^verbatim>\<open>\s*\n(.*?)\n```\<close>: the star first tries to take one more byte of white space; when
  the rest of the pattern fails after that, the newline of the pattern has to match here.
\<close>

fun match_open :: "string \<Rightarrow> string option" where
  "match_open [] = None"
| "match_open (c # cs) =
     (case (if re_space c then match_open cs else None) of
        Some g \<Rightarrow> Some g
      | None \<Rightarrow> if c = nl then match_body cs else None)"

text \<open>The whole first pattern at the start of the text, with the optional tag tried first.\<close>

definition match_fence :: "string \<Rightarrow> string option" where
  "match_fence t =
     (if prefix ''```'' t then
        (let u = drop 3 t
         in case (if prefix ''json'' u then match_open (drop 4 u) else None) of
              Some g \<Rightarrow> Some g
            | None \<Rightarrow> match_open u)
      else None)"

fun find_fence :: "string \<Rightarrow> string option" where
  "find_fence [] = None"
| "find_fence (c # cs) =
     (case match_fence (c # cs) of
        Some g \<Rightarrow> Some g
      | None \<Rightarrow> find_fence cs)"

text \<open>
  \<^verbatim>\<open>(.*)\}\<close>: the longest run that a closing brace ends, the brace included; and the
  second pattern at the leftmost opening brace where it matches. The result is the whole
  match.
\<close>

fun match_to_brace :: "string \<Rightarrow> string option" where
  "match_to_brace [] = None"
| "match_to_brace (c # cs) =
     (case match_to_brace cs of
        Some g \<Rightarrow> Some (c # g)
      | None \<Rightarrow> if c = CHR ''}'' then Some [c] else None)"

fun find_object :: "string \<Rightarrow> string option" where
  "find_object [] = None"
| "find_object (c # cs) =
     (case (if c = CHR ''{'' then match_to_brace cs else None) of
        Some g \<Rightarrow> Some (c # g)
      | None \<Rightarrow> find_object cs)"

definition extractJSON :: "string \<Rightarrow> string" where
  "extractJSON response =
     (case find_fence response of
        Some group1 \<Rightarrow> strings_TrimSpace group1
      | None \<Rightarrow>
          (case find_object response of
             Some match0 \<Rightarrow> strings_TrimSpace match0
           | None \<Rightarrow> strings_TrimSpace response))"

subsection \<open>\<^verbatim>\<open>parseAndFormatResponse\<close> (lines 105 to 183)\<close>

text \<open>
  A \<^verbatim>\<open>*color.Color\<close> of \<^verbatim>\<open>fatih/color\<close> puts an escape sequence before and after a
  text, or nothing when colour is switched off. The sequences, and where the library puts
  the newline of an empty \<^verbatim>\<open>Sprintln()\<close>, depend on its version; they are fields of the
  model.
\<close>

record Color =
  noColor :: bool
  format :: string
  unformat :: string
  newline_after_reset :: bool


definition wrap :: "Color \<Rightarrow> string \<Rightarrow> string" where
  "wrap c s = (if noColor c then s else format c @ s @ unformat c)"

definition Sprint :: "Color \<Rightarrow> string \<Rightarrow> string" where
  "Sprint c s = wrap c s"

definition Sprintln_empty :: "Color \<Rightarrow> string" where
  "Sprintln_empty c = (if newline_after_reset c then wrap c [] @ [nl] else wrap c [nl])"

definition insufficient_data_message :: string where
  "insufficient_data_message =
     [CHR 0xE2, CHR 0x9A, CHR 0xA0, CHR 0xEF, CHR 0xB8, CHR 0x8F] @
     ''  Problem detected but insufficient data for a clear solution. Please provide more context or logs.''"

text \<open>The loops of lines 133, 164 and 176: each piece of the split text, then a newline.\<close>

definition write_lines :: "string \<Rightarrow> string" where
  "write_lines s = concat (map (\<lambda>line. line @ [nl]) (strings_Split s nl))"

text \<open>Lines 115 to 182: what the function does with the decoded reply.\<close>

definition formatResponse ::
  "(string \<Rightarrow> string) \<Rightarrow> Color \<Rightarrow> Color \<Rightarrow> LLMResponse \<Rightarrow> string" where
  "formatResponse Map_unicode_ToLower titleColor messageColor llmResp =
     (let status = strings_ToLower Map_unicode_ToLower (strings_TrimSpace (Status llmResp))
      in if status = ''no_problem'' \<or>
            (status = [] \<and> strings_TrimSpace (RootCause llmResp) = []
               \<and> strings_TrimSpace (Evidence llmResp) = [])
         then ''Your log looks good, no problems detected!'' @ [nl]
         else if status = ''insufficient_data'' \<or>
            (status = [] \<and> strings_TrimSpace (Fix llmResp) = []
               \<and> strings_TrimSpace (Evidence llmResp) \<noteq> [])
         then Sprint titleColor ''Evidence'' @ [nl, nl]
              @ write_lines (strings_TrimSpace (Evidence llmResp)) @ [nl]
              @ Sprint messageColor insufficient_data_message @ [nl]
         else
           (if strings_TrimSpace (RootCause llmResp) \<noteq> []
            then Sprintln_empty titleColor @ Sprint titleColor ''Root Cause'' @ [nl, nl]
                 @ strings_TrimSpace (RootCause llmResp) @ [nl, nl]
            else [])
           @ (if strings_TrimSpace (Evidence llmResp) \<noteq> []
              then Sprint titleColor ''Evidence'' @ [nl, nl]
                   @ write_lines (strings_TrimSpace (Evidence llmResp)) @ [nl]
              else [])
           @ (if strings_TrimSpace (Fix llmResp) \<noteq> []
              then Sprint titleColor ''Fix'' @ [nl, nl]
                   @ write_lines (strings_TrimSpace (Fix llmResp))
              else []))"

text \<open>
  \<^verbatim>\<open>json.Unmarshal\<close> into an \<^verbatim>\<open>LLMResponse\<close> is the parameter \<open>json_Unmarshal\<close>: the
  text of the error, or the decoded reply. An error is modelled by its message.
\<close>

definition parseAndFormatResponse ::
  "(string \<Rightarrow> string) \<Rightarrow> (string \<Rightarrow> string + LLMResponse) \<Rightarrow> Color \<Rightarrow> Color \<Rightarrow> string
     \<Rightarrow> string + string" where
  "parseAndFormatResponse Map_unicode_ToLower json_Unmarshal titleColor messageColor
       rawResponse =
     (let jsonStr = extractJSON rawResponse
      in case json_Unmarshal jsonStr of
           Inl err \<Rightarrow> Inl (''failed to parse JSON: '' @ err)
         | Inr llmResp \<Rightarrow>
             Inr (formatResponse Map_unicode_ToLower titleColor messageColor llmResp))"

subsection \<open>\<^verbatim>\<open>Advise\<close> (lines 19 to 46)\<close>

record Config =
  Provider :: string
  Model :: string
  Verbose :: bool
  NoContext :: bool
  DryRun :: bool
  Interactive :: bool
  ChatGPTKey :: string
  ClaudeKey :: string
  DefaultProvider :: string

record 't Context =
  OS :: string
  Arch :: string
  Shell :: string
  Timestamp :: 't

record 't QueryPayload =
  RawLog :: string
  SanitizedLog :: string
  SystemContext :: "'t Context"

text \<open>
  The value that \<^verbatim>\<open>Advise\<close> returns: \<open>Inl\<close> the error, \<open>Inr\<close> the text. The client is
  its method \<^verbatim>\<open>QueryWithPayload\<close>. What the function writes to the standard error
  stream (the spinner, the report of a dry run) is not part of the model.
\<close>

definition Advise ::
  "(string \<Rightarrow> string) \<Rightarrow> (string \<Rightarrow> string + LLMResponse) \<Rightarrow> Color \<Rightarrow> Color
     \<Rightarrow> (Config \<Rightarrow> 't QueryPayload \<Rightarrow> string + string)
     \<Rightarrow> Config \<Rightarrow> 't QueryPayload \<Rightarrow> string + string" where
  "Advise Map_unicode_ToLower json_Unmarshal titleColor messageColor QueryWithPayload
       cfg payload =
     (if DryRun cfg then Inr []
      else
        (case QueryWithPayload cfg payload of
           Inl err \<Rightarrow> Inl err
         | Inr response \<Rightarrow>
             (case parseAndFormatResponse Map_unicode_ToLower json_Unmarshal titleColor
                     messageColor response of
                Inl err \<Rightarrow>
                  Inr (''Error parsing LLM response: '' @ err @ [nl, nl]
                       @ ''Raw response:'' @ [nl] @ response)
              | Inr formatted \<Rightarrow> Inr formatted)))"

subsection \<open>\<^verbatim>\<open>RunInteractive\<close> (lines 186 to 292)\<close>

text \<open>\<^verbatim>\<open>buildInitialUserMessage\<close>; \<open>format_RFC3339\<close> is \<^verbatim>\<open>Timestamp.Format(time.RFC3339)\<close>.\<close>

definition buildInitialUserMessage :: "('t \<Rightarrow> string) \<Rightarrow> 't QueryPayload \<Rightarrow> string" where
  "buildInitialUserMessage format_RFC3339 payload =
     (let parts = [''Please analyze the following log data:'', []];
          parts =
            (if OS (SystemContext payload) \<noteq> [] then
               (let ctx = SystemContext payload;
                    contextInfo =
                      ''System Environment:'' @ [nl] @ ''- OS: '' @ OS ctx @ [nl]
                      @ ''- Architecture: '' @ Arch ctx @ [nl]
                      @ ''- Shell: '' @ Shell ctx @ [nl]
                      @ ''- Timestamp: '' @ format_RFC3339 (Timestamp ctx)
                in parts @ [contextInfo, []])
             else parts);
          parts = parts @ [''=== Original Log Data ===''];
          logPreview = SanitizedLog payload;
          logPreview =
            (if length logPreview > 2000 then take 2000 logPreview @ ''... [truncated]''
             else logPreview)
      in strings_Join (parts @ [logPreview, [], ''=== End Original Log Data ==='']) [nl])"

text \<open>
  The state of a session: the history, the state of the client, and what has been written
  to the two output streams. The client is its method \<^verbatim>\<open>QueryWithHistory\<close>, a step on
  the client's own state, so that two calls with the same arguments may answer differently.
\<close>

record 'c session =
  conversationHistory :: "string list"
  client :: 'c
  stdout :: string
  stderr :: string

text \<open>
  The loop of lines 213 to 255 over the lines that the scanner delivers. The second
  component of the result tells whether an exit command ended the loop; otherwise the
  scanner had no further line.
\<close>

fun interactive_loop ::
  "('c \<Rightarrow> Config \<Rightarrow> string list \<Rightarrow> string \<Rightarrow> (string + string) \<times> 'c) \<Rightarrow> Color \<Rightarrow> Config
     \<Rightarrow> string list \<Rightarrow> 'c session \<Rightarrow> 'c session \<times> bool" where
  "interactive_loop QueryWithHistory promptColor cfg [] s =
     (s\<lparr>stderr := stderr s @ Sprint promptColor ''> ''\<rparr>, False)"
| "interactive_loop QueryWithHistory promptColor cfg (text # lines) s =
     (let s = s\<lparr>stderr := stderr s @ Sprint promptColor ''> ''\<rparr>;
          userInput = strings_TrimSpace text
      in if userInput = [] then interactive_loop QueryWithHistory promptColor cfg lines s
         else if userInput = ''exit'' \<or> userInput = ''quit'' \<or> userInput = ''q''
         then (s\<lparr>stderr := stderr s @ ''Exiting interactive mode.'' @ [nl]\<rparr>, True)
         else
           (case QueryWithHistory (client s) cfg (conversationHistory s) userInput of
              (Inl err, client') \<Rightarrow>
                interactive_loop QueryWithHistory promptColor cfg lines
                  (s\<lparr>client := client', stderr := stderr s @ ''Error: '' @ err @ [nl]\<rparr>)
            | (Inr response, client') \<Rightarrow>
                interactive_loop QueryWithHistory promptColor cfg lines
                  (s\<lparr>client := client',
                     stdout := stdout s @ response @ [nl, nl],
                     conversationHistory := conversationHistory s @ [userInput, response]\<rparr>)))"

definition interactive_banner :: string where
  "interactive_banner =
     [CHR 0xF0, CHR 0x9F, CHR 0x92, CHR 0xAC] @
     '' Interactive mode - Ask follow-up questions (type 'exit' or 'quit' to exit)'' @ [nl, nl]"

text \<open>
  The input is the list \<open>lines\<close> of the texts that the scanner delivers and \<open>scan_err\<close>,
  the value of \<^verbatim>\<open>scanner.Err()\<close> after the loop (\<open>None\<close> for \<^verbatim>\<open>nil\<close>). The result
  is the error that the function returns and the last state of the session. What the
  spinner writes is not part of the model.
\<close>

definition RunInteractive ::
  "('c \<Rightarrow> Config \<Rightarrow> string list \<Rightarrow> string \<Rightarrow> (string + string) \<times> 'c) \<Rightarrow> Color
     \<Rightarrow> ('t \<Rightarrow> string) \<Rightarrow> 'c \<Rightarrow> string list \<Rightarrow> string option
     \<Rightarrow> Config \<Rightarrow> 't QueryPayload \<Rightarrow> string \<Rightarrow> string option \<times> 'c session" where
  "RunInteractive QueryWithHistory promptColor format_RFC3339 client0 lines scan_err
       cfg payload initialResponse =
     (let initialUserMessage = buildInitialUserMessage format_RFC3339 payload;
          s0 = \<lparr>conversationHistory = [initialUserMessage, initialResponse],
                client = client0, stdout = [],
                stderr = [nl] @ Sprint promptColor interactive_banner\<rparr>;
          (s, exited) = interactive_loop QueryWithHistory promptColor cfg lines s0
      in (case scan_err of
            None \<Rightarrow> None
          | Some err \<Rightarrow> Some (''error reading input: '' @ err),
          s))"

section \<open>The notions of the specification\<close>

subsection \<open>The priority table of the placeholder classifier\<close>

text \<open>
  The categories in the order of the specification: AWS access key, AWS secret key, other
  AWS credential, GitHub, private key, API key, bearer token, other token, password and
  database connection string. Each has a test on the lowered rule id and the lowered
  description, and its literal.
\<close>

definition placeholder_rules :: "((string \<Rightarrow> string \<Rightarrow> bool) \<times> string) list" where
  "placeholder_rules =
     [(\<lambda>r d. strings_Contains r ''aws''
               \<and> (strings_Contains r ''access'' \<or> strings_Contains d ''access key''),
         ''<REDACTED_AWS_ACCESS_KEY>''),
      (\<lambda>r d. strings_Contains r ''aws''
               \<and> (strings_Contains r ''secret'' \<or> strings_Contains d ''secret''),
         ''<REDACTED_AWS_SECRET_KEY>''),
      (\<lambda>r d. strings_Contains r ''aws'', ''<REDACTED_AWS_CREDENTIAL>''),
      (\<lambda>r d. strings_Contains r ''github'' \<or> strings_Contains d ''github'',
         ''<REDACTED_GITHUB_TOKEN>''),
      (\<lambda>r d. strings_Contains r ''private'' \<or> strings_Contains d ''private key'',
         ''<REDACTED_PRIVATE_KEY>''),
      (\<lambda>r d. strings_Contains r ''api'' \<or> strings_Contains d ''api key'',
         ''<REDACTED_API_KEY>''),
      (\<lambda>r d. strings_Contains r ''bearer'' \<or> strings_Contains d ''bearer'',
         ''<REDACTED_BEARER_TOKEN>''),
      (\<lambda>r d. strings_Contains r ''token'' \<or> strings_Contains d ''token'',
         ''<REDACTED_TOKEN>''),
      (\<lambda>r d. strings_Contains r ''password'' \<or> strings_Contains d ''password'',
         ''<REDACTED_PASSWORD>''),
      (\<lambda>r d. strings_Contains r ''db-connection'' \<or> strings_Contains d ''database connection'',
         ''<REDACTED_DB_CONNECTION_STRING>'')]"

definition first_matching_placeholder ::
  "(string \<Rightarrow> string) \<Rightarrow> string \<Rightarrow> string \<Rightarrow> string" where
  "first_matching_placeholder Map_unicode_ToLower ruleID description =
     (case find (\<lambda>(matches, placeholder).
                   matches (strings_ToLower Map_unicode_ToLower ruleID)
                     (strings_ToLower Map_unicode_ToLower description))
             placeholder_rules of
        Some (matches, placeholder) \<Rightarrow> placeholder
      | None \<Rightarrow> ''<REDACTED_SECRET>'')"

subsection \<open>The turns of a conversation\<close>

text \<open>
  The specification counts the turns of a session that complete. Here they are listed for
  the lines of the input, a history and a state of the client: the question and the answer
  of each turn whose query succeeds, in the order of the input. A blank line is no turn,
  an exit command ends the session, a question whose query fails is not recorded, and the
  next query is made with the history that the specification's \<^verbatim>\<open>Ask\<close> keeps: the old
  one after a failure, the old one followed by the question and the answer after a
  success.
\<close>

fun successful_turns ::
  "('c \<Rightarrow> Config \<Rightarrow> string list \<Rightarrow> string \<Rightarrow> (string + string) \<times> 'c) \<Rightarrow> Config
     \<Rightarrow> string list \<Rightarrow> string list \<Rightarrow> 'c \<Rightarrow> (string \<times> string) list" where
  "successful_turns QueryWithHistory cfg [] history c = []"
| "successful_turns QueryWithHistory cfg (text # lines) history c =
     (let question = strings_TrimSpace text
      in if question = [] then successful_turns QueryWithHistory cfg lines history c
         else if question = ''exit'' \<or> question = ''quit'' \<or> question = ''q'' then []
         else
           (case QueryWithHistory c cfg history question of
              (Inl err, c') \<Rightarrow> successful_turns QueryWithHistory cfg lines history c'
            | (Inr answer, c') \<Rightarrow>
                (question, answer)
                # successful_turns QueryWithHistory cfg lines (history @ [question, answer]) c'))"

subsection \<open>Bytes without letter case\<close>


subsection \<open>Test doubles\<close>

text \<open>
  A stand-in for \<^verbatim>\<open>Map(unicode.ToLower, s)\<close> that lowers the ASCII letters only. The
  examples use it with rule ids, descriptions and statuses whose bytes are all below
  \<^verbatim>\<open>0x80\<close>, for which \<^verbatim>\<open>strings.ToLower\<close> does not make that call.
\<close>

definition ascii_lower :: "string \<Rightarrow> string" where
  "ascii_lower s = map lower_byte s"

text \<open>A decoder that rejects every text, and a client that answers with a fixed text.\<close>

definition reject_json :: "string \<Rightarrow> string + LLMResponse" where
  "reject_json jsonStr = Inl ''unexpected end of JSON input''"

definition fixed_reply :: "string \<Rightarrow> Config \<Rightarrow> unit QueryPayload \<Rightarrow> string + string" where
  "fixed_reply response cfg payload = Inr response"

text \<open>
  A client that counts its calls, fails on the question \<^verbatim>\<open>bad\<close> and otherwise answers
  with the question after \<^verbatim>\<open>re: \<close>.
\<close>

definition flaky_client ::
  "nat \<Rightarrow> Config \<Rightarrow> string list \<Rightarrow> string \<Rightarrow> (string + string) \<times> nat" where
  "flaky_client calls cfg history question =
     (if question = ''bad'' then (Inl ''timeout'', calls + 1)
      else (Inr (''re: '' @ question), calls + 1))"

definition plain :: Color where
  "plain = \<lparr>noColor = True, format = [], unformat = [], newline_after_reset = True\<rparr>"

definition live_config :: Config where
  "live_config =
     \<lparr>Provider = ''openai'', Model = [], Verbose = False, NoContext = True, DryRun = False,
      Interactive = False, ChatGPTKey = ''k'', ClaudeKey = [], DefaultProvider = ''openai''\<rparr>"

definition bare_payload :: "unit QueryPayload" where
  "bare_payload =
     \<lparr>RawLog = ''boom'', SanitizedLog = ''boom'',
      SystemContext = \<lparr>OS = [], Arch = [], Shell = [], Timestamp = ()\<rparr>\<rparr>"

section \<open>Facts about the functions of package \<^verbatim>\<open>strings\<close>\<close>

subsection \<open>Splitting at newlines and writing the pieces back\<close>



subsection \<open>Trimming\<close>








subsection \<open>Lowering the bytes of a text\<close>























section \<open>Redaction details (C7)\<close>

lemma collect_details:
  "fst (collect Map_unicode_ToLower True findings (details, uniqueSecrets)) =
     details @ map finding_detail (filter (\<lambda>f. finding_secret f \<noteq> []) findings)"
  by (induction findings arbitrary: details uniqueSecrets) (simp_all add: Let_def)

text \<open>
  C7, as the specification states it, fails: a finding whose match and secret are both
  empty is skipped by the guard of lines 130 to 132 before the detail is recorded, so the
  details can be fewer than the findings. Here the detector returns one such finding.
\<close>

theorem details_per_finding_counterexample:
  "length (snd (snd (RedactWithDetails ascii_lower
       (MockDetector_DetectString [MockFinding ''generic-api-key'' ''Generic API Key'' [] []])
       id ''token='' True)))
   \<noteq> length (MockDetector_DetectString
               [MockFinding ''generic-api-key'' ''Generic API Key'' [] []] ''token='')"
  by (simp add: RedactWithDetails_def MockDetector_DetectString_def MockFinding_def
      finding_secret_def)

text \<open>
  C7, amended: for a non-empty input and \<^verbatim>\<open>verbose\<close> set, the details are the records of
  the findings whose substitution secret is not empty, one for each such finding, in the
  detector's order and with duplicates kept. Their number is the number of those findings.
\<close>

theorem details_per_nonempty_finding:
  assumes "input \<noteq> []"
  shows "snd (snd (RedactWithDetails Map_unicode_ToLower DetectString range_order input True)) =
           map finding_detail (filter (\<lambda>f. finding_secret f \<noteq> []) (DetectString input))"
proof (cases "DetectString input = []")
  case True
  with assms show ?thesis by (simp add: RedactWithDetails_def)
next
  case False
  obtain ds us where
    c: "collect Map_unicode_ToLower True (DetectString input) ([], []) = (ds, us)"
    by (cases "collect Map_unicode_ToLower True (DetectString input) ([], [])")
  have "ds = map finding_detail (filter (\<lambda>f. finding_secret f \<noteq> []) (DetectString input))"
    using collect_details [of Map_unicode_ToLower "DetectString input" "[]" "[]"] c by simp
  with assms False c show ?thesis
    by (simp add: RedactWithDetails_def Let_def split: prod.splits)
qed

theorem details_per_nonempty_finding_witness:
  "''key=abc abc'' \<noteq> [] \<and>
   map FindingDetail.RuleID (snd (snd (RedactWithDetails ascii_lower
       (MockDetector_DetectString
          [MockFinding ''api-key'' ''API Key'' ''abc'' ''abc'', MockFinding ''empty'' [] [] [],
           MockFinding ''generic'' ''Generic'' ''abc'' ''abc''])
       rev ''key=abc abc'' True)))
     = [''api-key'', ''generic'']"
  using details_per_nonempty_finding
    [of "''key=abc abc''" ascii_lower
        "MockDetector_DetectString
          [MockFinding ''api-key'' ''API Key'' ''abc'' ''abc'', MockFinding ''empty'' [] [] [],
           MockFinding ''generic'' ''Generic'' ''abc'' ''abc'']" rev]
  by (simp add: MockDetector_DetectString_def MockFinding_def finding_secret_def
      finding_detail_def)

section \<open>The placeholder classifier (C5)\<close>

text \<open>
  C5: \<^verbatim>\<open>getRedactionPlaceholder\<close> is defined on every pair of strings; its result is the
  literal of the first category of the priority table whose test holds on the lowered rule
  id and description, and the generic literal when none holds; it is one of the eleven
  literals; it depends on its arguments only through what \<^verbatim>\<open>strings.ToLower\<close> makes of
  them, so not on letter case; on two empty strings it is the generic literal. All this
  holds whatever the Unicode tables behind \<^verbatim>\<open>strings.ToLower\<close> are.
\<close>

theorem placeholder_first_match:
  "getRedactionPlaceholder Map_unicode_ToLower ruleID description
     = first_matching_placeholder Map_unicode_ToLower ruleID description
   \<and> getRedactionPlaceholder Map_unicode_ToLower ruleID description
       \<in> set (map snd placeholder_rules) \<union> {''<REDACTED_SECRET>''}
   \<and> (strings_ToLower Map_unicode_ToLower ruleID = strings_ToLower Map_unicode_ToLower ruleID'
        \<and> strings_ToLower Map_unicode_ToLower description
            = strings_ToLower Map_unicode_ToLower description'
      \<longrightarrow> getRedactionPlaceholder Map_unicode_ToLower ruleID description
            = getRedactionPlaceholder Map_unicode_ToLower ruleID' description')
   \<and> ((\<forall>(matches, placeholder) \<in> set placeholder_rules.
          \<not> matches (strings_ToLower Map_unicode_ToLower ruleID)
                (strings_ToLower Map_unicode_ToLower description))
      \<longrightarrow> getRedactionPlaceholder Map_unicode_ToLower ruleID description = ''<REDACTED_SECRET>'')
   \<and> getRedactionPlaceholder Map_unicode_ToLower [] [] = ''<REDACTED_SECRET>''"
proof (intro conjI)
  show "getRedactionPlaceholder Map_unicode_ToLower ruleID description
          = first_matching_placeholder Map_unicode_ToLower ruleID description"
    by (simp add: getRedactionPlaceholder_def first_matching_placeholder_def
        placeholder_rules_def Let_def)
  show "getRedactionPlaceholder Map_unicode_ToLower ruleID description
          \<in> set (map snd placeholder_rules) \<union> {''<REDACTED_SECRET>''}"
    by (simp add: getRedactionPlaceholder_def placeholder_rules_def Let_def)
  show "strings_ToLower Map_unicode_ToLower ruleID = strings_ToLower Map_unicode_ToLower ruleID'
          \<and> strings_ToLower Map_unicode_ToLower description
              = strings_ToLower Map_unicode_ToLower description'
        \<longrightarrow> getRedactionPlaceholder Map_unicode_ToLower ruleID description
              = getRedactionPlaceholder Map_unicode_ToLower ruleID' description'"
    by (simp add: getRedactionPlaceholder_def)
  show "(\<forall>(matches, placeholder) \<in> set placeholder_rules.
           \<not> matches (strings_ToLower Map_unicode_ToLower ruleID)
                 (strings_ToLower Map_unicode_ToLower description))
        \<longrightarrow> getRedactionPlaceholder Map_unicode_ToLower ruleID description
              = ''<REDACTED_SECRET>''"
    by (simp add: getRedactionPlaceholder_def placeholder_rules_def Let_def)
  show "getRedactionPlaceholder Map_unicode_ToLower [] [] = ''<REDACTED_SECRET>''"
    by (simp add: getRedactionPlaceholder_def Let_def strings_ToLower_def isASCII_def
        strings_Contains_def)
qed

text \<open>
  The theorem at three inputs: a rule id that names three categories, of which the first
  of the table applies, in either letter case; a pair that no category matches; and the
  rule id \<^verbatim>\<open>TO\<close>, U+212A, \<^verbatim>\<open>EN\<close> with Unicode tables that lower it to \<^verbatim>\<open>token\<close>, as
  those of Go do.
\<close>

theorem placeholder_first_match_witness:
  "getRedactionPlaceholder ascii_lower ''AWS-GitHub-Secret'' ''An Access Key''
     = ''<REDACTED_AWS_ACCESS_KEY>''
   \<and> getRedactionPlaceholder ascii_lower ''AWS-GitHub-Secret'' ''An Access Key''
       = getRedactionPlaceholder ascii_lower ''aws-github-secret'' ''an access key''
   \<and> getRedactionPlaceholder ascii_lower ''rule-17'' ''High entropy string''
       = ''<REDACTED_SECRET>''
   \<and> getRedactionPlaceholder (\<lambda>s. ''token'')
         (''TO'' @ [CHR 0xE2, CHR 0x84, CHR 0xAA] @ ''EN'') [] = ''<REDACTED_TOKEN>''"
proof -
  have l1: "strings_ToLower ascii_lower ''AWS-GitHub-Secret'' = ''aws-github-secret''"
    and l2: "strings_ToLower ascii_lower ''An Access Key'' = ''an access key''"
    and l3: "strings_ToLower ascii_lower ''aws-github-secret'' = ''aws-github-secret''"
    and l4: "strings_ToLower ascii_lower ''an access key'' = ''an access key''"
    and l5: "strings_ToLower ascii_lower ''rule-17'' = ''rule-17''"
    and l6: "strings_ToLower ascii_lower ''High entropy string'' = ''high entropy string''"
    and l7: "strings_ToLower (\<lambda>s. ''token'') (''TO'' @ [CHR 0xE2, CHR 0x84, CHR 0xAA] @ ''EN'')
               = ''token''"
    and l8: "strings_ToLower (\<lambda>s. ''token'') [] = []"
    by (simp_all add: strings_ToLower_def isASCII_def lower_byte_def)
  have "first_matching_placeholder ascii_lower ''AWS-GitHub-Secret'' ''An Access Key''
          = ''<REDACTED_AWS_ACCESS_KEY>''"
    by (simp add: first_matching_placeholder_def placeholder_rules_def l1 l2
        strings_Contains_def sublist_code)
  with placeholder_first_match [of ascii_lower "''AWS-GitHub-Secret''" "''An Access Key''"]
  have a: "getRedactionPlaceholder ascii_lower ''AWS-GitHub-Secret'' ''An Access Key''
             = ''<REDACTED_AWS_ACCESS_KEY>''"
    by metis
  have b: "getRedactionPlaceholder ascii_lower ''AWS-GitHub-Secret'' ''An Access Key''
             = getRedactionPlaceholder ascii_lower ''aws-github-secret'' ''an access key''"
    using placeholder_first_match [of ascii_lower "''AWS-GitHub-Secret''" "''An Access Key''"
        "''aws-github-secret''" "''an access key''"]
    by (metis l1 l2 l3 l4)
  have "\<forall>(matches, placeholder) \<in> set placeholder_rules.
          \<not> matches (strings_ToLower ascii_lower ''rule-17'')
                (strings_ToLower ascii_lower ''High entropy string'')"
    by (simp add: placeholder_rules_def l5 l6 strings_Contains_def sublist_code)
  with placeholder_first_match [of ascii_lower "''rule-17''" "''High entropy string''"]
  have c: "getRedactionPlaceholder ascii_lower ''rule-17'' ''High entropy string''
             = ''<REDACTED_SECRET>''"
    by blast
  have "first_matching_placeholder (\<lambda>s. ''token'')
          (''TO'' @ [CHR 0xE2, CHR 0x84, CHR 0xAA] @ ''EN'') [] = ''<REDACTED_TOKEN>''"
    by (simp only: first_matching_placeholder_def l7 l8)
      (simp add: placeholder_rules_def strings_Contains_def sublist_code)
  with placeholder_first_match
    [of "\<lambda>s. ''token''" "''TO'' @ [CHR 0xE2, CHR 0x84, CHR 0xAA] @ ''EN''" "[]"]
  have d: "getRedactionPlaceholder (\<lambda>s. ''token'')
             (''TO'' @ [CHR 0xE2, CHR 0x84, CHR 0xAA] @ ''EN'') [] = ''<REDACTED_TOKEN>''"
    by metis
  from a b c d show ?thesis by simp
qed

section \<open>The evidence decoder (C8)\<close>

lemma first_error_Inr: "first_error (map Inr xs) = None"
  by (induction xs) simp_all

text \<open>
  C8: whatever the receiver held, decoding a JSON array of strings stores the strings
  joined by newlines, so \<^verbatim>\<open>["a","b"]\<close> gives the evidence \<^verbatim>\<open>"a\nb"\<close>; decoding a
  JSON string stores that string. The decoded reply carries the evidence as one string,
  which is all that \<open>formatResponse\<close> reads.
\<close>

theorem evidence_normalized:
  "EvidenceString_UnmarshalJSON e (JArray (map JString xs)) = Inr (strings_Join xs [nl])
   \<and> EvidenceString_UnmarshalJSON e (JArray [JString ''a'', JString ''b''])
       = Inr (''a'' @ [nl] @ ''b'')
   \<and> EvidenceString_UnmarshalJSON e (JString s) = Inr s"
  by (simp add: EvidenceString_UnmarshalJSON_def Let_def comp_def first_error_Inr)

section \<open>A reply that does not parse (C9)\<close>

text \<open>
  C9: when the run is not a dry run, the client answers \<open>response\<close> and the decoder
  rejects the text extracted from it, \<^verbatim>\<open>Advise\<close> returns without an error the note of
  the parse error followed by the whole reply as the client gave it. The result does not
  depend on the colours, that is, on anything \<open>formatResponse\<close> would produce, and the
  client is asked once.
\<close>

theorem advise_malformed_reply:
  assumes "\<not> DryRun cfg"
    and "QueryWithPayload cfg payload = Inr response"
    and "json_Unmarshal (extractJSON response) = Inl err"
  shows "Advise Map_unicode_ToLower json_Unmarshal titleColor messageColor QueryWithPayload
           cfg payload =
           Inr (''Error parsing LLM response: failed to parse JSON: '' @ err @ [nl, nl]
                @ ''Raw response:'' @ [nl] @ response)"
  using assms by (simp add: Advise_def parseAndFormatResponse_def)

theorem advise_malformed_reply_witness:
  "\<not> DryRun live_config
   \<and> fixed_reply ''{status: '' live_config bare_payload = Inr ''{status: ''
   \<and> reject_json (extractJSON ''{status: '') = Inl ''unexpected end of JSON input''
   \<and> Advise ascii_lower reject_json plain plain (fixed_reply ''{status: '') live_config
         bare_payload =
       Inr (''Error parsing LLM response: failed to parse JSON: unexpected end of JSON input''
            @ [nl, nl] @ ''Raw response:'' @ [nl] @ ''{status: '')"
  using advise_malformed_reply [of live_config "fixed_reply ''{status: ''" bare_payload
      "''{status: ''" reject_json "''unexpected end of JSON input''" ascii_lower plain plain]
  by (simp add: live_config_def fixed_reply_def reject_json_def)

section \<open>The status of a reply up to letter case and white space (C10)\<close>



section \<open>The classification table (C3)\<close>













section \<open>The history of a conversation (C4)\<close>

lemma loop_history:
  "conversationHistory (fst (interactive_loop QueryWithHistory promptColor cfg lines s))
     = conversationHistory s
       @ concat (map (\<lambda>(q, a). [q, a])
           (successful_turns QueryWithHistory cfg lines (conversationHistory s) (client s)))"
proof (induction lines arbitrary: s)
  case Nil
  show ?case by simp
next
  case (Cons line lines)
  show ?case
  proof (cases "QueryWithHistory (client s) cfg (conversationHistory s)
                  (strings_TrimSpace line)")
    case (Pair r c')
    then show ?thesis
      by (cases r) (simp_all add: Let_def Cons.IH)
  qed
qed

lemma loop_stdout:
  "stdout (fst (interactive_loop QueryWithHistory promptColor cfg lines s))
     = stdout s
       @ concat (map (\<lambda>(q, a). a @ [nl, nl])
           (successful_turns QueryWithHistory cfg lines (conversationHistory s) (client s)))"
proof (induction lines arbitrary: s)
  case Nil
  show ?case by simp
next
  case (Cons line lines)
  show ?case
  proof (cases "QueryWithHistory (client s) cfg (conversationHistory s)
                  (strings_TrimSpace line)")
    case (Pair r c')
    then show ?thesis
      by (cases r) (simp_all add: Let_def Cons.IH)
  qed
qed

lemma length_concat_pairs: "length (concat (map (\<lambda>(q, a). [q, a]) turns)) = 2 * length turns"
  by (induction turns) auto

lemma run_session:
  "snd (RunInteractive QueryWithHistory promptColor format_RFC3339 client0 lines scan_err
          cfg payload initialResponse)
   = fst (interactive_loop QueryWithHistory promptColor cfg lines
       \<lparr>conversationHistory = [buildInitialUserMessage format_RFC3339 payload, initialResponse],
        client = client0, stdout = [],
        stderr = [nl] @ Sprint promptColor interactive_banner\<rparr>)"
  by (simp add: RunInteractive_def Let_def split: prod.splits)

text \<open>
  C4: when \<^verbatim>\<open>RunInteractive\<close> returns, the history is the initial user message and the
  initial advisory followed by the question and the answer of each completed turn, in
  order: a user entry, then an assistant entry, and so on; its length is 2 + 2N for the
  N completed turns, which are the turns whose answers the function has printed. A turn
  whose query fails changes the client and the error stream only: the loop goes on with
  the remaining lines and the same history.
\<close>

theorem history_two_plus_two_per_turn:
  "conversationHistory (snd (RunInteractive QueryWithHistory promptColor format_RFC3339
       client0 lines scan_err cfg payload initialResponse))
     = [buildInitialUserMessage format_RFC3339 payload, initialResponse]
       @ concat (map (\<lambda>(q, a). [q, a])
           (successful_turns QueryWithHistory cfg lines
              [buildInitialUserMessage format_RFC3339 payload, initialResponse] client0))
   \<and> length (conversationHistory (snd (RunInteractive QueryWithHistory promptColor
         format_RFC3339 client0 lines scan_err cfg payload initialResponse)))
     = 2 + 2 * length (successful_turns QueryWithHistory cfg lines
                         [buildInitialUserMessage format_RFC3339 payload, initialResponse]
                         client0)
   \<and> stdout (snd (RunInteractive QueryWithHistory promptColor format_RFC3339
         client0 lines scan_err cfg payload initialResponse))
     = concat (map (\<lambda>(q, a). a @ [nl, nl])
         (successful_turns QueryWithHistory cfg lines
            [buildInitialUserMessage format_RFC3339 payload, initialResponse] client0))
   \<and> (strings_TrimSpace text \<noteq> []
        \<and> strings_TrimSpace text \<notin> {''exit'', ''quit'', ''q''}
        \<and> QueryWithHistory (client s) cfg (conversationHistory s) (strings_TrimSpace text)
            = (Inl err, c')
      \<longrightarrow> interactive_loop QueryWithHistory promptColor cfg (text # rest) s
            = interactive_loop QueryWithHistory promptColor cfg rest
                (s\<lparr>client := c',
                   stderr := stderr s @ Sprint promptColor ''> '' @ ''Error: '' @ err @ [nl]\<rparr>)
          \<and> conversationHistory
                (s\<lparr>client := c',
                   stderr := stderr s @ Sprint promptColor ''> '' @ ''Error: '' @ err @ [nl]\<rparr>)
              = conversationHistory s)"
proof (intro conjI impI)
  show h: "conversationHistory (snd (RunInteractive QueryWithHistory promptColor
       format_RFC3339 client0 lines scan_err cfg payload initialResponse))
     = [buildInitialUserMessage format_RFC3339 payload, initialResponse]
       @ concat (map (\<lambda>(q, a). [q, a])
           (successful_turns QueryWithHistory cfg lines
              [buildInitialUserMessage format_RFC3339 payload, initialResponse] client0))"
    by (simp only: run_session loop_history) simp
  show "length (conversationHistory (snd (RunInteractive QueryWithHistory promptColor
         format_RFC3339 client0 lines scan_err cfg payload initialResponse)))
     = 2 + 2 * length (successful_turns QueryWithHistory cfg lines
                         [buildInitialUserMessage format_RFC3339 payload, initialResponse]
                         client0)"
    by (simp only: h length_append length_concat_pairs) simp
  show "stdout (snd (RunInteractive QueryWithHistory promptColor format_RFC3339
         client0 lines scan_err cfg payload initialResponse))
     = concat (map (\<lambda>(q, a). a @ [nl, nl])
         (successful_turns QueryWithHistory cfg lines
            [buildInitialUserMessage format_RFC3339 payload, initialResponse] client0))"
    by (simp only: run_session loop_stdout) simp
next
  assume a: "strings_TrimSpace text \<noteq> []
        \<and> strings_TrimSpace text \<notin> {''exit'', ''quit'', ''q''}
        \<and> QueryWithHistory (client s) cfg (conversationHistory s) (strings_TrimSpace text)
            = (Inl err, c')"
  then show "interactive_loop QueryWithHistory promptColor cfg (text # rest) s
            = interactive_loop QueryWithHistory promptColor cfg rest
                (s\<lparr>client := c',
                   stderr := stderr s @ Sprint promptColor ''> '' @ ''Error: '' @ err @ [nl]\<rparr>)"
    by (simp add: Let_def)
  show "conversationHistory
                (s\<lparr>client := c',
                   stderr := stderr s @ Sprint promptColor ''> '' @ ''Error: '' @ err @ [nl]\<rparr>)
              = conversationHistory s"
    by simp
qed

text \<open>
  A session of six lines with the client that fails on \<^verbatim>\<open>bad\<close>: two turns complete
  before the exit command, and the history has six entries.
\<close>

theorem history_two_plus_two_per_turn_witness:
  "strings_TrimSpace ''bad'' \<noteq> []
   \<and> strings_TrimSpace ''bad'' \<notin> {''exit'', ''quit'', ''q''}
   \<and> flaky_client 1 live_config
        [buildInitialUserMessage (\<lambda>t. []) bare_payload, ''advice'', ''first'', ''re: first'']
        (strings_TrimSpace ''bad'')
      = (Inl ''timeout'', 2)
   \<and> successful_turns flaky_client live_config
        [''first'', ''   '', ''bad'', '' second '', ''quit'', ''ignored'']
        [buildInitialUserMessage (\<lambda>t. []) bare_payload, ''advice''] 0
      = [(''first'', ''re: first''), (''second'', ''re: second'')]
   \<and> conversationHistory (snd (RunInteractive flaky_client plain (\<lambda>t. []) 0
        [''first'', ''   '', ''bad'', '' second '', ''quit'', ''ignored''] None
        live_config bare_payload ''advice''))
      = [buildInitialUserMessage (\<lambda>t. []) bare_payload, ''advice'',
         ''first'', ''re: first'', ''second'', ''re: second'']
   \<and> length (conversationHistory (snd (RunInteractive flaky_client plain (\<lambda>t. []) 0
        [''first'', ''   '', ''bad'', '' second '', ''quit'', ''ignored''] None
        live_config bare_payload ''advice''))) = 6"
proof -
  have t: "strings_TrimSpace ''first'' = ''first''" "strings_TrimSpace ''   '' = []"
    "strings_TrimSpace ''bad'' = ''bad''" "strings_TrimSpace '' second '' = ''second''"
    "strings_TrimSpace ''quit'' = ''quit''"
    by (simp_all add: strings_TrimSpace_def unicode_spaces_def)
  have turns: "successful_turns flaky_client live_config
        [''first'', ''   '', ''bad'', '' second '', ''quit'', ''ignored'']
        [buildInitialUserMessage (\<lambda>t. []) bare_payload, ''advice''] 0
      = [(''first'', ''re: first''), (''second'', ''re: second'')]"
    by (simp add: t flaky_client_def Let_def)
  have f: "flaky_client 1 live_config
        [buildInitialUserMessage (\<lambda>t. []) bare_payload, ''advice'', ''first'', ''re: first'']
        (strings_TrimSpace ''bad'')
      = (Inl ''timeout'', 2)"
    by (simp add: t flaky_client_def)
  note inst = history_two_plus_two_per_turn [of flaky_client plain "\<lambda>t. []" 0
      "[''first'', ''   '', ''bad'', '' second '', ''quit'', ''ignored'']" None live_config
      bare_payload "''advice''"]
  from inst have h: "conversationHistory (snd (RunInteractive flaky_client plain (\<lambda>t. []) 0
        [''first'', ''   '', ''bad'', '' second '', ''quit'', ''ignored''] None
        live_config bare_payload ''advice''))
      = [buildInitialUserMessage (\<lambda>t. []) bare_payload, ''advice'']
        @ concat (map (\<lambda>(q, a). [q, a])
           (successful_turns flaky_client live_config
              [''first'', ''   '', ''bad'', '' second '', ''quit'', ''ignored'']
              [buildInitialUserMessage (\<lambda>t. []) bare_payload, ''advice''] 0))"
    by blast
  have h': "conversationHistory (snd (RunInteractive flaky_client plain (\<lambda>t. []) 0
        [''first'', ''   '', ''bad'', '' second '', ''quit'', ''ignored''] None
        live_config bare_payload ''advice''))
      = [buildInitialUserMessage (\<lambda>t. []) bare_payload, ''advice'',
         ''first'', ''re: first'', ''second'', ''re: second'']"
    by (simp only: h turns) simp
  have l: "length (conversationHistory (snd (RunInteractive flaky_client plain (\<lambda>t. []) 0
        [''first'', ''   '', ''bad'', '' second '', ''quit'', ''ignored''] None
        live_config bare_payload ''advice''))) = 6"
    by (simp only: h') simp
  have "strings_TrimSpace ''bad'' \<noteq> []"
    and "strings_TrimSpace ''bad'' \<notin> {''exit'', ''quit'', ''q''}"
    by (simp_all add: t)
  with f turns h' l show ?thesis by blast
qed

end
